theory Spec2Isabelle
  imports Main "HOL-Library.Word"
begin

unbundle bit_operations_syntax

section \<open>PM slave SRAM: data model (pm\_sram.c)\<close>

text \<open>
  The file pm\_sram.c defines the power states of the on-chip memories, their capability
  tables, the transition table, the FSM handler \<open>PmSramFsmHandler\<close>, the L2 power-down
  wrapper \<open>PmL2PwrDn\<close> and the bank instances. The headers it includes are not part of
  the fragment; what is taken from them is marked below.
\<close>

type_synonym u32 = "32 word"

text \<open>
  \<open>PmStateId\<close> is an unsigned integer type declared in a header outside the fragment.
  The code only compares state identifiers with the constants \<open>0U\<close>, \<open>1U\<close>, \<open>2U\<close> and
  uses them as table indices, so the width plays no role and the type is \<open>nat\<close>.
\<close>

type_synonym PmStateId = nat

text \<open>Memory-mapped registers: the value held at each 32-bit address.\<close>

type_synonym hw = "u32 \<Rightarrow> u32"

text \<open>Power states of SRAM.\<close>

definition PM_SRAM_STATE_OFF :: PmStateId where "PM_SRAM_STATE_OFF = 0"
definition PM_SRAM_STATE_RET :: PmStateId where "PM_SRAM_STATE_RET = 1"
definition PM_SRAM_STATE_ON :: PmStateId where "PM_SRAM_STATE_ON = 2"
definition PM_SRAM_STATE_MAX :: nat where "PM_SRAM_STATE_MAX = 3"

text \<open>
  Modelled from the spec: the capability bits \<open>PM_CAP_ACCESS\<close>, \<open>PM_CAP_CONTEXT\<close> and
  \<open>PM_CAP_POWER\<close> are declared in headers outside the fragment. The spec names three
  separate capabilities (accessible, context-retained, powered) that form bit-sets; the
  numerals are the single-bit values of the firmware's headers. Only the fact that they
  are three different single bits is used.
\<close>

definition PM_CAP_ACCESS :: u32 where "PM_CAP_ACCESS = 0x1"
definition PM_CAP_CONTEXT :: u32 where "PM_CAP_CONTEXT = 0x2"
definition PM_CAP_POWER :: u32 where "PM_CAP_POWER = 0x8"

text \<open>
  Modelled from the spec: the status codes \<open>XST_SUCCESS\<close>, \<open>XST_NO_FEATURE\<close> and
  \<open>XST_PM_INTERNAL\<close> are declared in xstatus.h and pm\_defs.h, outside the fragment. The
  spec names them as three different outcomes (success, "no such feature", internal
  error); the numerals are those of the firmware's headers. Only the fact that they are
  pairwise different is used. A status is an \<open>int\<close> in the handler and a \<open>u32\<close> in the
  power handlers; both are 32 bits wide and the conversion keeps the bit pattern, so
  one word type serves for both.
\<close>

definition XST_SUCCESS :: u32 where "XST_SUCCESS = 0"
definition XST_NO_FEATURE :: u32 where "XST_NO_FEATURE = 19"
definition XST_PM_INTERNAL :: u32 where "XST_PM_INTERNAL = 2000"

text \<open>Sram states: the capability bit-set of each state, indexed by the state.\<close>

definition pmSramStates :: "u32 list" where
  "pmSramStates =
     [0,
      PM_CAP_CONTEXT OR PM_CAP_POWER,
      PM_CAP_ACCESS OR PM_CAP_CONTEXT OR PM_CAP_POWER]"

text \<open>TCMs in retention do not require power parent to be ON.\<close>

definition pmTcmStates :: "u32 list" where
  "pmTcmStates =
     [0,
      PM_CAP_CONTEXT,
      PM_CAP_ACCESS OR PM_CAP_CONTEXT OR PM_CAP_POWER]"

record PmStateTran =
  fromState :: PmStateId
  toState :: PmStateId
  latency :: u32

text \<open>
  Sram transition table (from which to which state sram can transit). The constant
  \<open>PM_DEFAULT_LATENCY\<close> is declared outside the fragment and is a parameter.
\<close>

definition pmSramTransitions :: "u32 \<Rightarrow> PmStateTran list" where
  "pmSramTransitions PM_DEFAULT_LATENCY =
     [\<lparr>fromState = PM_SRAM_STATE_ON, toState = PM_SRAM_STATE_RET,
        latency = PM_DEFAULT_LATENCY\<rparr>,
      \<lparr>fromState = PM_SRAM_STATE_RET, toState = PM_SRAM_STATE_ON,
        latency = PM_DEFAULT_LATENCY\<rparr>,
      \<lparr>fromState = PM_SRAM_STATE_ON, toState = PM_SRAM_STATE_OFF,
        latency = PM_DEFAULT_LATENCY\<rparr>,
      \<lparr>fromState = PM_SRAM_STATE_OFF, toState = PM_SRAM_STATE_ON,
        latency = PM_DEFAULT_LATENCY\<rparr>]"

text \<open>
  The structures \<open>PmNode\<close>, \<open>PmSlave\<close> and \<open>PmSlaveSram\<close> are declared outside the
  fragment. The records keep the nesting of the initialisers in pm\_sram.c and the fields
  the code of this file reads or writes. \<open>node.derived\<close> of every bank points to the
  bank itself, so the handler receives the \<open>PmSlaveSram\<close> record. The two power handlers
  are function pointers: each is a function on the registers that returns its status.
\<close>

record PmNode =
  currState :: PmStateId

record PmSlave =
  node :: PmNode

record PmSlaveSram =
  slv :: PmSlave
  PwrDn :: "hw \<Rightarrow> u32 \<times> hw"
  PwrUp :: "hw \<Rightarrow> u32 \<times> hw"
  retCtrlAddr :: u32
  retCtrlMask :: u32

section \<open>Hardware effects\<close>

text \<open>
  The calls the handler makes to the outside, in the order it makes them: a
  read-modify-write with its three arguments, the bank's power-down handler, the bank's
  power-up handler. The machine state a handler runs on is the registers together with
  the calls made so far.
\<close>

datatype hw_call = RMW32 u32 u32 u32 | PwrDnCall | PwrUpCall

record world =
  regs :: hw
  calls :: "hw_call list"

text \<open>
  Modelled from the spec: \<open>XPfw_RMW32\<close> is defined outside the fragment. The spec calls it
  "a register-style read-modify-write keyed by an address and bit-mask": the bits of the
  register selected by the mask take the bits of the value, the others stay.
\<close>

definition XPfw_RMW32 :: "u32 \<Rightarrow> u32 \<Rightarrow> u32 \<Rightarrow> hw \<Rightarrow> hw" where
  "XPfw_RMW32 RegAddress Mask Value h =
     h(RegAddress := (h RegAddress AND NOT Mask) OR (Mask AND Value))"

definition do_RMW32 :: "u32 \<Rightarrow> u32 \<Rightarrow> u32 \<Rightarrow> world \<Rightarrow> world" where
  "do_RMW32 RegAddress Mask Value w =
     \<lparr>regs = XPfw_RMW32 RegAddress Mask Value (regs w),
      calls = calls w @ [RMW32 RegAddress Mask Value]\<rparr>"

definition call_PwrDn :: "PmSlaveSram \<Rightarrow> world \<Rightarrow> u32 \<times> world" where
  "call_PwrDn sram w =
     (let (status, h) = PwrDn sram (regs w)
      in (status, \<lparr>regs = h, calls = calls w @ [PwrDnCall]\<rparr>))"

definition call_PwrUp :: "PmSlaveSram \<Rightarrow> world \<Rightarrow> u32 \<times> world" where
  "call_PwrUp sram w =
     (let (status, h) = PwrUp sram (regs w)
      in (status, \<lparr>regs = h, calls = calls w @ [PwrUpCall]\<rparr>))"

text \<open>
  Modelled from the spec: \<open>PmNodeUpdateCurrState\<close> is defined outside the fragment. The
  spec describes its effect as the commit \<open>bank.currentState = targetState\<close>.
\<close>

definition PmNodeUpdateCurrState :: "PmNode \<Rightarrow> PmStateId \<Rightarrow> PmNode" where
  "PmNodeUpdateCurrState n newState = n\<lparr>currState := newState\<rparr>"

section \<open>The FSM handler\<close>

text \<open>
  \<open>PmSramFsmHandler\<close>: the \<open>switch\<close> on the current state with its \<open>if\<close> chains on the
  next state, then the commit on success. The default branch also prints a debug
  message, which touches neither the bank nor the registers. The result is the status,
  the bank and the machine state after the call.
\<close>

definition PmSramFsmHandler ::
  "PmSlaveSram \<Rightarrow> PmStateId \<Rightarrow> world \<Rightarrow> u32 \<times> PmSlaveSram \<times> world" where
  "PmSramFsmHandler sram nextState w =
     (let (status, w') =
        (if currState (node (slv sram)) = PM_SRAM_STATE_ON then
           (if PM_SRAM_STATE_RET = nextState then
              call_PwrDn sram
                (do_RMW32 (retCtrlAddr sram) (retCtrlMask sram) (retCtrlMask sram) w)
            else if PM_SRAM_STATE_OFF = nextState then
              call_PwrDn sram
                (do_RMW32 (retCtrlAddr sram) (retCtrlMask sram) (NOT (retCtrlMask sram)) w)
            else (XST_NO_FEATURE, w))
         else if currState (node (slv sram)) = PM_SRAM_STATE_RET then
           (if PM_SRAM_STATE_ON = nextState then
              call_PwrUp sram w
            else if PM_SRAM_STATE_OFF = nextState then
              call_PwrDn sram
                (do_RMW32 (retCtrlAddr sram) (retCtrlMask sram) (NOT (retCtrlMask sram)) w)
            else (XST_NO_FEATURE, w))
         else if currState (node (slv sram)) = PM_SRAM_STATE_OFF then
           (if PM_SRAM_STATE_ON = nextState then
              call_PwrUp sram w
            else (XST_NO_FEATURE, w))
         else (XST_PM_INTERNAL, w))
      in if XST_SUCCESS = status then
           (status,
            sram\<lparr>slv := (slv sram)\<lparr>node := PmNodeUpdateCurrState (node (slv sram)) nextState\<rparr>\<rparr>,
            w')
         else (status, sram, w'))"

text \<open>
  The FSM descriptors. Both name the same transition table and the same handler; they
  differ in the state table.
\<close>

record PmSlaveFsm =
  states :: "u32 list"
  statesCnt :: nat
  trans :: "PmStateTran list"
  transCnt :: nat
  enterState :: "PmSlaveSram \<Rightarrow> PmStateId \<Rightarrow> world \<Rightarrow> u32 \<times> PmSlaveSram \<times> world"

definition slaveSramFsm :: "u32 \<Rightarrow> PmSlaveFsm" where
  "slaveSramFsm PM_DEFAULT_LATENCY =
     \<lparr>states = pmSramStates,
      statesCnt = PM_SRAM_STATE_MAX,
      trans = pmSramTransitions PM_DEFAULT_LATENCY,
      transCnt = length (pmSramTransitions PM_DEFAULT_LATENCY),
      enterState = PmSramFsmHandler\<rparr>"

definition slaveTcmFsm :: "u32 \<Rightarrow> PmSlaveFsm" where
  "slaveTcmFsm PM_DEFAULT_LATENCY =
     \<lparr>states = pmTcmStates,
      statesCnt = PM_SRAM_STATE_MAX,
      trans = pmSramTransitions PM_DEFAULT_LATENCY,
      transCnt = length (pmSramTransitions PM_DEFAULT_LATENCY),
      enterState = PmSramFsmHandler\<rparr>"

section \<open>The L2 bank\<close>

text \<open>
  What the L2 bank takes from outside the fragment: the two PMU-ROM handlers and the
  addresses and masks of the registers it names. They are parameters.
\<close>

record platform =
  XpbrPwrDnL2Bank0Handler :: "hw \<Rightarrow> u32 \<times> hw"
  XpbrPwrUpL2Bank0Handler :: "hw \<Rightarrow> u32 \<times> hw"
  CRF_APB_RST_FPD_APU :: u32
  CRF_APB_RST_FPD_APU_APU_L2_RESET_MASK :: u32
  PMU_GLOBAL_RAM_RET_CNTRL :: u32
  PMU_GLOBAL_RAM_RET_CNTRL_L2_BANK0_MASK :: u32

text \<open>\<open>PmL2PwrDn\<close>: call the PMU-ROM handler, then assert the L2 reset, return the status.\<close>

definition PmL2PwrDn :: "platform \<Rightarrow> hw \<Rightarrow> u32 \<times> hw" where
  "PmL2PwrDn p h =
     (let (status, h1) = XpbrPwrDnL2Bank0Handler p h;
          h2 = XPfw_RMW32 (CRF_APB_RST_FPD_APU p)
                 (CRF_APB_RST_FPD_APU_APU_L2_RESET_MASK p)
                 (CRF_APB_RST_FPD_APU_APU_L2_RESET_MASK p) h1
      in (status, h2))"

definition pmSlaveL2_g :: "platform \<Rightarrow> PmSlaveSram" where
  "pmSlaveL2_g p =
     \<lparr>slv = \<lparr>node = \<lparr>currState = PM_SRAM_STATE_ON\<rparr>\<rparr>,
      PwrDn = PmL2PwrDn p,
      PwrUp = XpbrPwrUpL2Bank0Handler p,
      retCtrlAddr = PMU_GLOBAL_RAM_RET_CNTRL p,
      retCtrlMask = PMU_GLOBAL_RAM_RET_CNTRL_L2_BANK0_MASK p\<rparr>"

section \<open>Notions used to state the properties\<close>

text \<open>A pair of states is connected by a direct edge of a transition table.\<close>

definition direct_edge :: "PmStateTran list \<Rightarrow> PmStateId \<Rightarrow> PmStateId \<Rightarrow> bool" where
  "direct_edge tbl s t = list_ex (\<lambda>e. fromState e = s \<and> toState e = t) tbl"

text \<open>One capability bit-set is contained in another.\<close>

definition cap_subset :: "u32 \<Rightarrow> u32 \<Rightarrow> bool" where
  "cap_subset a b = (a AND b = a)"

text \<open>The calls that are external power actions.\<close>

fun is_power_action :: "hw_call \<Rightarrow> bool" where
  "is_power_action PwrDnCall = True"
| "is_power_action PwrUpCall = True"
| "is_power_action (RMW32 a m v) = False"

text \<open>Power handlers for example banks: one that succeeds and one that fails.\<close>

definition pwr_ok :: "hw \<Rightarrow> u32 \<times> hw" where
  "pwr_ok h = (XST_SUCCESS, h)"

definition pwr_fail :: "hw \<Rightarrow> u32 \<times> hw" where
  "pwr_fail h = (1, h)"

definition ex_bank :: "PmStateId \<Rightarrow> (hw \<Rightarrow> u32 \<times> hw) \<Rightarrow> PmSlaveSram" where
  "ex_bank s f =
     \<lparr>slv = \<lparr>node = \<lparr>currState = s\<rparr>\<rparr>, PwrDn = f, PwrUp = f,
      retCtrlAddr = 0xA0, retCtrlMask = 0x4\<rparr>"

definition ex_world :: world where
  "ex_world = \<lparr>regs = (\<lambda>a. 0), calls = []\<rparr>"

section \<open>Basic facts\<close>

lemma state_ids_distinct:
  "PM_SRAM_STATE_OFF \<noteq> PM_SRAM_STATE_RET" "PM_SRAM_STATE_OFF \<noteq> PM_SRAM_STATE_ON"
  "PM_SRAM_STATE_RET \<noteq> PM_SRAM_STATE_ON" "PM_SRAM_STATE_RET \<noteq> PM_SRAM_STATE_OFF"
  "PM_SRAM_STATE_ON \<noteq> PM_SRAM_STATE_OFF" "PM_SRAM_STATE_ON \<noteq> PM_SRAM_STATE_RET"
  by (simp_all add: PM_SRAM_STATE_OFF_def PM_SRAM_STATE_RET_def PM_SRAM_STATE_ON_def)

lemma status_distinct:
  "XST_SUCCESS \<noteq> XST_NO_FEATURE" "XST_SUCCESS \<noteq> XST_PM_INTERNAL"
  "XST_NO_FEATURE \<noteq> XST_PM_INTERNAL" "XST_NO_FEATURE \<noteq> XST_SUCCESS"
  "XST_PM_INTERNAL \<noteq> XST_SUCCESS" "XST_PM_INTERNAL \<noteq> XST_NO_FEATURE"
  by (simp_all add: XST_SUCCESS_def XST_NO_FEATURE_def XST_PM_INTERNAL_def)


lemma direct_edge_pmSramTransitions:
  "direct_edge (pmSramTransitions lat) s t \<longleftrightarrow>
     (s = PM_SRAM_STATE_ON \<and> t = PM_SRAM_STATE_RET) \<or>
     (s = PM_SRAM_STATE_RET \<and> t = PM_SRAM_STATE_ON) \<or>
     (s = PM_SRAM_STATE_ON \<and> t = PM_SRAM_STATE_OFF) \<or>
     (s = PM_SRAM_STATE_OFF \<and> t = PM_SRAM_STATE_ON)"
  by (auto simp: direct_edge_def pmSramTransitions_def)

lemma XPfw_RMW32_masked: "XPfw_RMW32 a m v h a AND m = v AND m"
  by (simp add: XPfw_RMW32_def bit_eq_iff bit_simps) blast

lemma XPfw_RMW32_set: "XPfw_RMW32 a m m h a AND m = m"
  by (simp add: XPfw_RMW32_masked)

lemma XPfw_RMW32_clear: "XPfw_RMW32 a m (NOT m) h a AND m = 0"
  by (simp add: XPfw_RMW32_masked)

lemma XPfw_RMW32_other: "b \<noteq> a \<Longrightarrow> XPfw_RMW32 a m v h b = h b"
  by (simp add: XPfw_RMW32_def)

section \<open>The handler, transition by transition\<close>

lemma handler_power_down:
  assumes "(currState (node (slv sram)) = PM_SRAM_STATE_ON \<and> nextState = PM_SRAM_STATE_RET
              \<and> v = retCtrlMask sram) \<or>
           (currState (node (slv sram)) = PM_SRAM_STATE_ON \<and> nextState = PM_SRAM_STATE_OFF
              \<and> v = NOT (retCtrlMask sram)) \<or>
           (currState (node (slv sram)) = PM_SRAM_STATE_RET \<and> nextState = PM_SRAM_STATE_OFF
              \<and> v = NOT (retCtrlMask sram))"
    and "h1 = XPfw_RMW32 (retCtrlAddr sram) (retCtrlMask sram) v (regs w)"
  shows "PmSramFsmHandler sram nextState w =
     (fst (PwrDn sram h1),
      if XST_SUCCESS = fst (PwrDn sram h1)
      then sram\<lparr>slv := (slv sram)\<lparr>node := (node (slv sram))\<lparr>currState := nextState\<rparr>\<rparr>\<rparr>
      else sram,
      \<lparr>regs = snd (PwrDn sram h1),
       calls = calls w @ [RMW32 (retCtrlAddr sram) (retCtrlMask sram) v, PwrDnCall]\<rparr>)"
  using assms
  by (auto simp: PmSramFsmHandler_def call_PwrDn_def do_RMW32_def PmNodeUpdateCurrState_def
      state_ids_distinct split_beta)

lemma handler_power_up:
  assumes "currState (node (slv sram)) = PM_SRAM_STATE_OFF \<or>
           currState (node (slv sram)) = PM_SRAM_STATE_RET"
    and "nextState = PM_SRAM_STATE_ON"
  shows "PmSramFsmHandler sram nextState w =
     (fst (PwrUp sram (regs w)),
      if XST_SUCCESS = fst (PwrUp sram (regs w))
      then sram\<lparr>slv := (slv sram)\<lparr>node := (node (slv sram))\<lparr>currState := nextState\<rparr>\<rparr>\<rparr>
      else sram,
      \<lparr>regs = snd (PwrUp sram (regs w)), calls = calls w @ [PwrUpCall]\<rparr>)"
  using assms
  by (auto simp: PmSramFsmHandler_def call_PwrUp_def PmNodeUpdateCurrState_def
      state_ids_distinct split_beta)

lemma handler_no_feature:
  assumes "currState (node (slv sram)) \<in>
             {PM_SRAM_STATE_OFF, PM_SRAM_STATE_RET, PM_SRAM_STATE_ON}"
    and "\<not> direct_edge (pmSramTransitions lat) (currState (node (slv sram))) nextState"
    and "\<not> (currState (node (slv sram)) = PM_SRAM_STATE_RET \<and> nextState = PM_SRAM_STATE_OFF)"
  shows "PmSramFsmHandler sram nextState w = (XST_NO_FEATURE, sram, w)"
  using assms
  by (auto simp: PmSramFsmHandler_def direct_edge_pmSramTransitions state_ids_distinct
      status_distinct)

lemma handler_internal:
  assumes "currState (node (slv sram)) \<notin>
             {PM_SRAM_STATE_OFF, PM_SRAM_STATE_RET, PM_SRAM_STATE_ON}"
  shows "PmSramFsmHandler sram nextState w = (XST_PM_INTERNAL, sram, w)"
  using assms
  by (simp add: PmSramFsmHandler_def status_distinct)

lemma handler_same_state:
  "PmSramFsmHandler sram (currState (node (slv sram))) w =
     (if currState (node (slv sram)) \<in>
           {PM_SRAM_STATE_OFF, PM_SRAM_STATE_RET, PM_SRAM_STATE_ON}
      then XST_NO_FEATURE else XST_PM_INTERNAL, sram, w)"
  by (simp add: PmSramFsmHandler_def state_ids_distinct status_distinct)

lemma handler_one_power_action:
  "length (filter is_power_action (calls (snd (snd (PmSramFsmHandler sram nextState w)))))
     \<le> length (filter is_power_action (calls w)) + 1"
  by (simp add: PmSramFsmHandler_def call_PwrDn_def call_PwrUp_def do_RMW32_def Let_def
      split_beta)

lemma handler_state:
  "fst (snd (PmSramFsmHandler sram nextState w)) =
     (if fst (PmSramFsmHandler sram nextState w) = XST_SUCCESS
      then sram\<lparr>slv := (slv sram)\<lparr>node := (node (slv sram))\<lparr>currState := nextState\<rparr>\<rparr>\<rparr>
      else sram)"
  by (simp add: PmSramFsmHandler_def PmNodeUpdateCurrState_def Let_def split_beta
      call_PwrDn_def call_PwrUp_def)

lemma handler_success_moves:
  "fst (PmSramFsmHandler sram nextState w) = XST_SUCCESS \<Longrightarrow>
   nextState \<noteq> currState (node (slv sram))"
  using handler_same_state [of sram w] by (auto simp: status_distinct split: if_splits)

lemma ex_bank_simps:
  "currState (node (slv (ex_bank s f))) = s" "PwrDn (ex_bank s f) = f"
  "PwrUp (ex_bank s f) = f" "retCtrlAddr (ex_bank s f) = 0xA0"
  "retCtrlMask (ex_bank s f) = 0x4"
  by (simp_all add: ex_bank_def)

lemma ex_world_simps: "regs ex_world a = 0" "calls ex_world = []"
  by (simp_all add: ex_world_def)


section \<open>Requests the handler rejects\<close>

text \<open>
  C5. For every bank whose current state is OFF, a request for RETENTION returns the
  status "no such feature"; the handler makes no call to the outside (the registers and
  the list of calls are those it was given) and the bank, with its current state OFF, is
  returned as it was.
\<close>

theorem off_to_ret_no_feature:
  "currState (node (slv sram)) = PM_SRAM_STATE_OFF \<Longrightarrow>
   PmSramFsmHandler sram PM_SRAM_STATE_RET w = (XST_NO_FEATURE, sram, w) \<and>
   currState (node (slv (fst (snd (PmSramFsmHandler sram PM_SRAM_STATE_RET w))))) =
     PM_SRAM_STATE_OFF"
  by (simp add: PmSramFsmHandler_def state_ids_distinct status_distinct)

theorem off_to_ret_no_feature_witness:
  "currState (node (slv (ex_bank PM_SRAM_STATE_OFF pwr_ok))) = PM_SRAM_STATE_OFF \<and>
   fst (PmSramFsmHandler (ex_bank PM_SRAM_STATE_OFF pwr_ok) PM_SRAM_STATE_RET ex_world) =
     XST_NO_FEATURE \<and>
   calls (snd (snd (PmSramFsmHandler (ex_bank PM_SRAM_STATE_OFF pwr_ok) PM_SRAM_STATE_RET
     ex_world))) = []"
proof -
  have cur: "currState (node (slv (ex_bank PM_SRAM_STATE_OFF pwr_ok))) = PM_SRAM_STATE_OFF"
    by (simp add: ex_bank_simps)
  from off_to_ret_no_feature [OF cur, of ex_world] cur show ?thesis
    by (simp add: ex_world_simps)
qed

text \<open>
  C8. If the recorded current state of a bank is none of OFF, RETENTION, ON, then for
  every requested state the handler returns the internal-error status, which is neither
  success nor "no such feature"; it makes no call to the outside and returns the bank
  unchanged.
\<close>

theorem unknown_state_internal_error:
  "currState (node (slv sram)) \<notin> {PM_SRAM_STATE_OFF, PM_SRAM_STATE_RET, PM_SRAM_STATE_ON} \<Longrightarrow>
   PmSramFsmHandler sram nextState w = (XST_PM_INTERNAL, sram, w) \<and>
   XST_PM_INTERNAL \<noteq> XST_SUCCESS \<and> XST_PM_INTERNAL \<noteq> XST_NO_FEATURE"
  by (simp add: handler_internal status_distinct)

theorem unknown_state_internal_error_witness:
  "currState (node (slv (ex_bank 3 pwr_ok))) \<notin>
     {PM_SRAM_STATE_OFF, PM_SRAM_STATE_RET, PM_SRAM_STATE_ON} \<and>
   fst (PmSramFsmHandler (ex_bank 3 pwr_ok) PM_SRAM_STATE_ON ex_world) = XST_PM_INTERNAL \<and>
   currState (node (slv (fst (snd (PmSramFsmHandler (ex_bank 3 pwr_ok) PM_SRAM_STATE_ON
     ex_world))))) = 3 \<and>
   calls (snd (snd (PmSramFsmHandler (ex_bank 3 pwr_ok) PM_SRAM_STATE_ON ex_world))) = []"
proof -
  have cur: "currState (node (slv (ex_bank 3 pwr_ok))) \<notin>
      {PM_SRAM_STATE_OFF, PM_SRAM_STATE_RET, PM_SRAM_STATE_ON}"
    by (simp add: ex_bank_simps PM_SRAM_STATE_OFF_def PM_SRAM_STATE_RET_def
        PM_SRAM_STATE_ON_def)
  from unknown_state_internal_error [OF cur, of PM_SRAM_STATE_ON ex_world] cur
  show ?thesis
    by (simp add: ex_bank_simps ex_world_simps)
qed

text \<open>
  C2, as the code has it. A request for the state the bank is in makes no call to the
  outside (no power-up, no power-down, no retention-control write) and returns the bank
  unchanged, but its status is not success: it is "no such feature" when the state is
  OFF, RETENTION or ON, and the internal error otherwise.
\<close>

theorem same_state_request_rejected:
  "PmSramFsmHandler sram (currState (node (slv sram))) w =
     (if currState (node (slv sram)) \<in>
           {PM_SRAM_STATE_OFF, PM_SRAM_STATE_RET, PM_SRAM_STATE_ON}
      then XST_NO_FEATURE else XST_PM_INTERNAL, sram, w) \<and>
   fst (PmSramFsmHandler sram (currState (node (slv sram))) w) \<noteq> XST_SUCCESS"
  by (simp add: handler_same_state status_distinct)

text \<open>
  C2 as the spec states it fails: a bank that is ON and is asked to be ON does not get
  the status success.
\<close>

theorem same_state_request_counterexample:
  "currState (node (slv (ex_bank PM_SRAM_STATE_ON pwr_ok))) = PM_SRAM_STATE_ON \<and>
   fst (PmSramFsmHandler (ex_bank PM_SRAM_STATE_ON pwr_ok) PM_SRAM_STATE_ON ex_world) \<noteq>
     XST_SUCCESS"
  by (simp add: PmSramFsmHandler_def ex_bank_simps state_ids_distinct status_distinct)

text \<open>
  C1, as the code has it. For a bank whose current state is OFF, RETENTION or ON and a
  requested state such that the pair is not a direct edge of the transition table and is
  not RETENTION to OFF, the handler returns "no such feature", makes no call to the
  outside and returns the bank unchanged. RETENTION to OFF is not an edge of the table,
  yet the handler carries it out: it clears the retention-control bits, calls the
  power-down handler and records OFF when that succeeds. One call of the handler makes at
  most one power action, so it never chains transitions.
\<close>

theorem no_edge_rejected_except_ret_off:
  "(currState (node (slv sram)) \<in> {PM_SRAM_STATE_OFF, PM_SRAM_STATE_RET, PM_SRAM_STATE_ON} \<and>
    \<not> direct_edge (pmSramTransitions lat) (currState (node (slv sram))) nextState \<and>
    \<not> (currState (node (slv sram)) = PM_SRAM_STATE_RET \<and> nextState = PM_SRAM_STATE_OFF)
    \<longrightarrow> PmSramFsmHandler sram nextState w = (XST_NO_FEATURE, sram, w)) \<and>
   (currState (node (slv sram)) = PM_SRAM_STATE_RET \<longrightarrow>
      \<not> direct_edge (pmSramTransitions lat) PM_SRAM_STATE_RET PM_SRAM_STATE_OFF \<and>
      (let h1 = XPfw_RMW32 (retCtrlAddr sram) (retCtrlMask sram) (NOT (retCtrlMask sram))
                  (regs w)
       in PmSramFsmHandler sram PM_SRAM_STATE_OFF w =
            (fst (PwrDn sram h1),
             if XST_SUCCESS = fst (PwrDn sram h1)
             then sram\<lparr>slv := (slv sram)\<lparr>node :=
                    (node (slv sram))\<lparr>currState := PM_SRAM_STATE_OFF\<rparr>\<rparr>\<rparr>
             else sram,
             \<lparr>regs = snd (PwrDn sram h1),
              calls = calls w @
                [RMW32 (retCtrlAddr sram) (retCtrlMask sram) (NOT (retCtrlMask sram)),
                 PwrDnCall]\<rparr>))) \<and>
   length (filter is_power_action (calls (snd (snd (PmSramFsmHandler sram nextState w)))))
     \<le> length (filter is_power_action (calls w)) + 1"
proof (intro conjI impI)
  assume "currState (node (slv sram)) \<in>
      {PM_SRAM_STATE_OFF, PM_SRAM_STATE_RET, PM_SRAM_STATE_ON} \<and>
    \<not> direct_edge (pmSramTransitions lat) (currState (node (slv sram))) nextState \<and>
    \<not> (currState (node (slv sram)) = PM_SRAM_STATE_RET \<and> nextState = PM_SRAM_STATE_OFF)"
  then show "PmSramFsmHandler sram nextState w = (XST_NO_FEATURE, sram, w)"
    by (intro handler_no_feature [of sram lat]) simp_all
next
  show "\<not> direct_edge (pmSramTransitions lat) PM_SRAM_STATE_RET PM_SRAM_STATE_OFF"
    by (simp add: direct_edge_pmSramTransitions state_ids_distinct)
next
  assume "currState (node (slv sram)) = PM_SRAM_STATE_RET"
  then show "let h1 = XPfw_RMW32 (retCtrlAddr sram) (retCtrlMask sram)
                  (NOT (retCtrlMask sram)) (regs w)
       in PmSramFsmHandler sram PM_SRAM_STATE_OFF w =
            (fst (PwrDn sram h1),
             if XST_SUCCESS = fst (PwrDn sram h1)
             then sram\<lparr>slv := (slv sram)\<lparr>node :=
                    (node (slv sram))\<lparr>currState := PM_SRAM_STATE_OFF\<rparr>\<rparr>\<rparr>
             else sram,
             \<lparr>regs = snd (PwrDn sram h1),
              calls = calls w @
                [RMW32 (retCtrlAddr sram) (retCtrlMask sram) (NOT (retCtrlMask sram)),
                 PwrDnCall]\<rparr>)"
    unfolding Let_def
    by (intro handler_power_down [of sram PM_SRAM_STATE_OFF "NOT (retCtrlMask sram)"]) simp_all
next
  show "length (filter is_power_action (calls (snd (snd (PmSramFsmHandler sram nextState w)))))
     \<le> length (filter is_power_action (calls w)) + 1"
    by (rule handler_one_power_action)
qed

theorem no_edge_rejected_except_ret_off_witness:
  "currState (node (slv (ex_bank PM_SRAM_STATE_RET pwr_ok))) \<in>
     {PM_SRAM_STATE_OFF, PM_SRAM_STATE_RET, PM_SRAM_STATE_ON} \<and>
   \<not> direct_edge (pmSramTransitions 0) PM_SRAM_STATE_RET PM_SRAM_STATE_RET \<and>
   PmSramFsmHandler (ex_bank PM_SRAM_STATE_RET pwr_ok) PM_SRAM_STATE_RET ex_world =
     (XST_NO_FEATURE, ex_bank PM_SRAM_STATE_RET pwr_ok, ex_world) \<and>
   fst (PmSramFsmHandler (ex_bank PM_SRAM_STATE_RET pwr_ok) PM_SRAM_STATE_OFF ex_world) =
     XST_SUCCESS"
proof -
  let ?b = "ex_bank PM_SRAM_STATE_RET pwr_ok"
  have cur: "currState (node (slv ?b)) = PM_SRAM_STATE_RET"
    by (simp add: ex_bank_simps)
  have mem: "currState (node (slv ?b)) \<in>
      {PM_SRAM_STATE_OFF, PM_SRAM_STATE_RET, PM_SRAM_STATE_ON}"
    by (simp add: cur)
  have noedge: "\<not> direct_edge (pmSramTransitions 0) PM_SRAM_STATE_RET PM_SRAM_STATE_RET"
    by (simp add: direct_edge_pmSramTransitions state_ids_distinct)
  note inst = no_edge_rejected_except_ret_off [of ?b 0 PM_SRAM_STATE_RET ex_world]
  from inst mem noedge cur
  have rej: "PmSramFsmHandler ?b PM_SRAM_STATE_RET ex_world = (XST_NO_FEATURE, ?b, ex_world)"
    by (simp add: state_ids_distinct)
  from inst cur
  have "fst (PmSramFsmHandler ?b PM_SRAM_STATE_OFF ex_world) = XST_SUCCESS"
    by (simp add: Let_def ex_bank_simps pwr_ok_def)
  with mem noedge rej show ?thesis by simp
qed

text \<open>
  C1 as the spec states it fails at RETENTION to OFF: the table has no such edge, and a
  bank in RETENTION whose power-down handler succeeds is reported success and recorded
  OFF, after a retention-control write and a power-down call.
\<close>

theorem ret_to_off_counterexample:
  "\<not> direct_edge (pmSramTransitions 0) PM_SRAM_STATE_RET PM_SRAM_STATE_OFF \<and>
   currState (node (slv (ex_bank PM_SRAM_STATE_RET pwr_ok))) = PM_SRAM_STATE_RET \<and>
   fst (PmSramFsmHandler (ex_bank PM_SRAM_STATE_RET pwr_ok) PM_SRAM_STATE_OFF ex_world) =
     XST_SUCCESS \<and>
   XST_SUCCESS \<noteq> XST_NO_FEATURE \<and>
   currState (node (slv (fst (snd (PmSramFsmHandler (ex_bank PM_SRAM_STATE_RET pwr_ok)
     PM_SRAM_STATE_OFF ex_world))))) = PM_SRAM_STATE_OFF \<and>
   calls (snd (snd (PmSramFsmHandler (ex_bank PM_SRAM_STATE_RET pwr_ok) PM_SRAM_STATE_OFF
     ex_world))) = [RMW32 0xA0 0x4 (NOT 0x4), PwrDnCall]"
proof -
  let ?b = "ex_bank PM_SRAM_STATE_RET pwr_ok"
  have run: "PmSramFsmHandler ?b PM_SRAM_STATE_OFF ex_world =
     (XST_SUCCESS,
      ?b\<lparr>slv := (slv ?b)\<lparr>node := (node (slv ?b))\<lparr>currState := PM_SRAM_STATE_OFF\<rparr>\<rparr>\<rparr>,
      \<lparr>regs = XPfw_RMW32 0xA0 0x4 (NOT 0x4) (regs ex_world),
       calls = [RMW32 0xA0 0x4 (NOT 0x4), PwrDnCall]\<rparr>)"
    using handler_power_down [of ?b PM_SRAM_STATE_OFF "NOT 0x4" _ ex_world, OF _ refl]
    by (simp add: ex_bank_simps ex_world_simps pwr_ok_def)
  show ?thesis
    by (simp add: run direct_edge_pmSramTransitions state_ids_distinct status_distinct
        ex_bank_simps)
qed


section \<open>Commit of the new state\<close>

lemma handler_other:
  assumes "\<not> ((currState (node (slv sram)) = PM_SRAM_STATE_ON \<and> nextState = PM_SRAM_STATE_RET) \<or>
              (currState (node (slv sram)) = PM_SRAM_STATE_ON \<and> nextState = PM_SRAM_STATE_OFF) \<or>
              (currState (node (slv sram)) = PM_SRAM_STATE_RET \<and> nextState = PM_SRAM_STATE_OFF))"
    and "\<not> ((currState (node (slv sram)) = PM_SRAM_STATE_OFF \<or>
               currState (node (slv sram)) = PM_SRAM_STATE_RET) \<and>
              nextState = PM_SRAM_STATE_ON)"
  shows "fst (PmSramFsmHandler sram nextState w) \<noteq> XST_SUCCESS"
    and "snd (PmSramFsmHandler sram nextState w) = (sram, w)"
  using assms
  by (auto simp: PmSramFsmHandler_def state_ids_distinct status_distinct)

text \<open>
  C3. The handler returns the bank with its current state set to the requested state
  when its status is success, and returns the bank as it was for every other status. So
  the recorded current state differs after the call if and only if the status is
  success, and then it is the requested state. The status is tied to the external power
  action: on a downward transition it is the status of the power-down handler (run after
  the retention-control write), on an upward transition it is the status of the power-up
  handler, so a power action that fails leaves the recorded state as it was and one that
  succeeds commits the requested state; on every other request the status is not
  success and the bank is unchanged.
\<close>

theorem state_committed_iff_success:
  "(let r = PmSramFsmHandler sram nextState w;
        cur = currState (node (slv sram));
        committed =
          sram\<lparr>slv := (slv sram)\<lparr>node := (node (slv sram))\<lparr>currState := nextState\<rparr>\<rparr>\<rparr>;
        v = (if nextState = PM_SRAM_STATE_RET then retCtrlMask sram
             else NOT (retCtrlMask sram));
        dn = PwrDn sram (XPfw_RMW32 (retCtrlAddr sram) (retCtrlMask sram) v (regs w));
        up = PwrUp sram (regs w);
        down_req = ((cur = PM_SRAM_STATE_ON \<and> nextState = PM_SRAM_STATE_RET) \<or>
                    (cur = PM_SRAM_STATE_ON \<and> nextState = PM_SRAM_STATE_OFF) \<or>
                    (cur = PM_SRAM_STATE_RET \<and> nextState = PM_SRAM_STATE_OFF));
        up_req = ((cur = PM_SRAM_STATE_OFF \<or> cur = PM_SRAM_STATE_RET) \<and>
                  nextState = PM_SRAM_STATE_ON)
    in (fst r = XST_SUCCESS \<longrightarrow>
          fst (snd r) = committed \<and> currState (node (slv (fst (snd r)))) = nextState) \<and>
       (fst r \<noteq> XST_SUCCESS \<longrightarrow> fst (snd r) = sram) \<and>
       (currState (node (slv (fst (snd r)))) \<noteq> cur \<longleftrightarrow> fst r = XST_SUCCESS) \<and>
       (down_req \<longrightarrow>
          fst r = fst dn \<and>
          (fst dn \<noteq> XST_SUCCESS \<longrightarrow>
             fst (snd r) = sram \<and> currState (node (slv (fst (snd r)))) = cur) \<and>
          (fst dn = XST_SUCCESS \<longrightarrow> fst (snd r) = committed)) \<and>
       (up_req \<longrightarrow>
          fst r = fst up \<and>
          (fst up \<noteq> XST_SUCCESS \<longrightarrow>
             fst (snd r) = sram \<and> currState (node (slv (fst (snd r)))) = cur) \<and>
          (fst up = XST_SUCCESS \<longrightarrow> fst (snd r) = committed)) \<and>
       (\<not> down_req \<and> \<not> up_req \<longrightarrow> fst r \<noteq> XST_SUCCESS \<and> fst (snd r) = sram))"
proof -
  let ?r = "PmSramFsmHandler sram nextState w"
  let ?cur = "currState (node (slv sram))"
  let ?committed =
    "sram\<lparr>slv := (slv sram)\<lparr>node := (node (slv sram))\<lparr>currState := nextState\<rparr>\<rparr>\<rparr>"
  let ?v = "if nextState = PM_SRAM_STATE_RET then retCtrlMask sram
            else NOT (retCtrlMask sram)"
  let ?dn = "PwrDn sram (XPfw_RMW32 (retCtrlAddr sram) (retCtrlMask sram) ?v (regs w))"
  let ?up = "PwrUp sram (regs w)"
  let ?down_req = "(?cur = PM_SRAM_STATE_ON \<and> nextState = PM_SRAM_STATE_RET) \<or>
                   (?cur = PM_SRAM_STATE_ON \<and> nextState = PM_SRAM_STATE_OFF) \<or>
                   (?cur = PM_SRAM_STATE_RET \<and> nextState = PM_SRAM_STATE_OFF)"
  let ?up_req = "(?cur = PM_SRAM_STATE_OFF \<or> ?cur = PM_SRAM_STATE_RET) \<and>
                 nextState = PM_SRAM_STATE_ON"
  have ok: "fst (snd ?r) = ?committed" if "fst ?r = XST_SUCCESS"
    using that by (simp add: handler_state)
  have ko: "fst (snd ?r) = sram" if "fst ?r \<noteq> XST_SUCCESS"
    using that by (simp add: handler_state)
  have moved: "nextState \<noteq> ?cur" if "fst ?r = XST_SUCCESS"
    using that by (rule handler_success_moves)
  have generic:
    "(fst ?r = XST_SUCCESS \<longrightarrow>
        fst (snd ?r) = ?committed \<and> currState (node (slv (fst (snd ?r)))) = nextState) \<and>
     (fst ?r \<noteq> XST_SUCCESS \<longrightarrow> fst (snd ?r) = sram) \<and>
     (currState (node (slv (fst (snd ?r)))) \<noteq> ?cur \<longleftrightarrow> fst ?r = XST_SUCCESS)"
  proof (cases "fst ?r = XST_SUCCESS")
    case True
    with ok moved show ?thesis by simp
  next
    case False
    with ko show ?thesis by simp
  qed
  have down: "fst ?r = fst ?dn" if d: ?down_req
  proof -
    from d have "(?cur = PM_SRAM_STATE_ON \<and> nextState = PM_SRAM_STATE_RET
                    \<and> ?v = retCtrlMask sram) \<or>
        (?cur = PM_SRAM_STATE_ON \<and> nextState = PM_SRAM_STATE_OFF
                    \<and> ?v = NOT (retCtrlMask sram)) \<or>
        (?cur = PM_SRAM_STATE_RET \<and> nextState = PM_SRAM_STATE_OFF
                    \<and> ?v = NOT (retCtrlMask sram))"
      by (auto simp: state_ids_distinct)
    from handler_power_down [OF this refl, of w] show ?thesis by simp
  qed
  have up: "fst ?r = fst ?up" if u: ?up_req
  proof -
    from u have "?cur = PM_SRAM_STATE_OFF \<or> ?cur = PM_SRAM_STATE_RET"
      and "nextState = PM_SRAM_STATE_ON" by simp_all
    from handler_power_up [OF this, of w] show ?thesis by simp
  qed
  have other: "fst ?r \<noteq> XST_SUCCESS \<and> fst (snd ?r) = sram"
    if "\<not> ?down_req" and "\<not> ?up_req"
    using handler_other [OF that, of w] by simp
  have down_full: "fst ?r = fst ?dn \<and>
          (fst ?dn \<noteq> XST_SUCCESS \<longrightarrow>
             fst (snd ?r) = sram \<and> currState (node (slv (fst (snd ?r)))) = ?cur) \<and>
          (fst ?dn = XST_SUCCESS \<longrightarrow> fst (snd ?r) = ?committed)"
    if d: ?down_req
    using down [OF d] ok ko by auto
  have up_full: "fst ?r = fst ?up \<and>
          (fst ?up \<noteq> XST_SUCCESS \<longrightarrow>
             fst (snd ?r) = sram \<and> currState (node (slv (fst (snd ?r)))) = ?cur) \<and>
          (fst ?up = XST_SUCCESS \<longrightarrow> fst (snd ?r) = ?committed)"
    if u: ?up_req
    using up [OF u] ok ko by auto
  from generic down_full up_full other show ?thesis
    unfolding Let_def by blast
qed

theorem state_committed_iff_success_witness:
  "fst (PmSramFsmHandler (ex_bank PM_SRAM_STATE_OFF pwr_ok) PM_SRAM_STATE_ON ex_world) =
     XST_SUCCESS \<and>
   currState (node (slv (fst (snd (PmSramFsmHandler (ex_bank PM_SRAM_STATE_OFF pwr_ok)
     PM_SRAM_STATE_ON ex_world))))) = PM_SRAM_STATE_ON \<and>
   fst (PmSramFsmHandler (ex_bank PM_SRAM_STATE_ON pwr_fail) PM_SRAM_STATE_OFF ex_world) \<noteq>
     XST_SUCCESS \<and>
   fst (snd (PmSramFsmHandler (ex_bank PM_SRAM_STATE_ON pwr_fail) PM_SRAM_STATE_OFF
     ex_world)) = ex_bank PM_SRAM_STATE_ON pwr_fail \<and>
   fst (pwr_fail (regs ex_world)) \<noteq> XST_SUCCESS \<and>
   fst (PmSramFsmHandler (ex_bank PM_SRAM_STATE_RET pwr_fail) PM_SRAM_STATE_ON ex_world) = 1 \<and>
   currState (node (slv (fst (snd (PmSramFsmHandler (ex_bank PM_SRAM_STATE_RET pwr_fail)
     PM_SRAM_STATE_ON ex_world))))) = PM_SRAM_STATE_RET \<and>
   fst (PmSramFsmHandler (ex_bank PM_SRAM_STATE_OFF pwr_ok) PM_SRAM_STATE_OFF ex_world) \<noteq>
     XST_SUCCESS"
proof -
  let ?up = "PmSramFsmHandler (ex_bank PM_SRAM_STATE_OFF pwr_ok) PM_SRAM_STATE_ON ex_world"
  let ?dn = "PmSramFsmHandler (ex_bank PM_SRAM_STATE_ON pwr_fail) PM_SRAM_STATE_OFF ex_world"
  let ?fu = "PmSramFsmHandler (ex_bank PM_SRAM_STATE_RET pwr_fail) PM_SRAM_STATE_ON ex_world"
  let ?no = "PmSramFsmHandler (ex_bank PM_SRAM_STATE_OFF pwr_ok) PM_SRAM_STATE_OFF ex_world"
  have f: "fst (pwr_fail h) \<noteq> XST_SUCCESS" "fst (pwr_fail h) = 1" for h
    by (simp_all add: pwr_fail_def XST_SUCCESS_def)
  have s: "fst (pwr_ok h) = XST_SUCCESS" for h
    by (simp add: pwr_ok_def)
  from state_committed_iff_success
         [of "ex_bank PM_SRAM_STATE_OFF pwr_ok" PM_SRAM_STATE_ON ex_world] s
  have up: "fst ?up = XST_SUCCESS \<and>
            currState (node (slv (fst (snd ?up)))) = PM_SRAM_STATE_ON"
    by (simp add: Let_def ex_bank_simps state_ids_distinct)
  from state_committed_iff_success
         [of "ex_bank PM_SRAM_STATE_ON pwr_fail" PM_SRAM_STATE_OFF ex_world] f
  have dn: "fst ?dn \<noteq> XST_SUCCESS \<and> fst (snd ?dn) = ex_bank PM_SRAM_STATE_ON pwr_fail"
    by (simp add: Let_def ex_bank_simps state_ids_distinct)
  from state_committed_iff_success
         [of "ex_bank PM_SRAM_STATE_RET pwr_fail" PM_SRAM_STATE_ON ex_world] f
  have fu: "fst ?fu = 1 \<and> currState (node (slv (fst (snd ?fu)))) = PM_SRAM_STATE_RET"
    by (simp add: Let_def ex_bank_simps state_ids_distinct)
  from state_committed_iff_success
         [of "ex_bank PM_SRAM_STATE_OFF pwr_ok" PM_SRAM_STATE_OFF ex_world]
  have no: "fst ?no \<noteq> XST_SUCCESS"
    by (simp add: Let_def ex_bank_simps state_ids_distinct)
  from up dn fu no f show ?thesis by simp
qed

section \<open>Order of the hardware actions\<close>

text \<open>
  C4. On each of the downward transitions ON to RETENTION, ON to OFF and RETENTION to
  OFF the handler makes exactly two calls, in this order: the read-modify-write of the
  retention-control register under the bank's mask, with the mask as value for a
  RETENTION target (the masked bits end up set) and with the complement of the mask for
  an OFF target (the masked bits end up clear), then the power-down handler, which runs
  on the registers that write has produced. On each of the upward transitions OFF to ON
  and RETENTION to ON it makes one call, the power-up handler, on the registers as they
  were, and no retention-control write.
\<close>

theorem retention_write_then_power_down:
  "(let a = retCtrlAddr sram; m = retCtrlMask sram;
        cur = currState (node (slv sram));
        r = PmSramFsmHandler sram nextState w;
        v = (if nextState = PM_SRAM_STATE_RET then m else NOT m);
        h1 = XPfw_RMW32 a m v (regs w)
    in ((cur = PM_SRAM_STATE_ON \<and> nextState = PM_SRAM_STATE_RET) \<or>
        (cur = PM_SRAM_STATE_ON \<and> nextState = PM_SRAM_STATE_OFF) \<or>
        (cur = PM_SRAM_STATE_RET \<and> nextState = PM_SRAM_STATE_OFF) \<longrightarrow>
          calls (snd (snd r)) = calls w @ [RMW32 a m v, PwrDnCall] \<and>
          fst r = fst (PwrDn sram h1) \<and>
          regs (snd (snd r)) = snd (PwrDn sram h1) \<and>
          h1 a AND m = (if nextState = PM_SRAM_STATE_RET then m else 0)) \<and>
       ((cur = PM_SRAM_STATE_OFF \<or> cur = PM_SRAM_STATE_RET) \<and> nextState = PM_SRAM_STATE_ON \<longrightarrow>
          calls (snd (snd r)) = calls w @ [PwrUpCall] \<and>
          fst r = fst (PwrUp sram (regs w)) \<and>
          regs (snd (snd r)) = snd (PwrUp sram (regs w))))"
proof -
  let ?a = "retCtrlAddr sram" and ?m = "retCtrlMask sram"
  let ?cur = "currState (node (slv sram))"
  let ?r = "PmSramFsmHandler sram nextState w"
  let ?v = "if nextState = PM_SRAM_STATE_RET then ?m else NOT ?m"
  let ?h1 = "XPfw_RMW32 ?a ?m ?v (regs w)"
  have down: "calls (snd (snd ?r)) = calls w @ [RMW32 ?a ?m ?v, PwrDnCall] \<and>
          fst ?r = fst (PwrDn sram ?h1) \<and>
          regs (snd (snd ?r)) = snd (PwrDn sram ?h1) \<and>
          ?h1 ?a AND ?m = (if nextState = PM_SRAM_STATE_RET then ?m else 0)"
    if d: "(?cur = PM_SRAM_STATE_ON \<and> nextState = PM_SRAM_STATE_RET) \<or>
        (?cur = PM_SRAM_STATE_ON \<and> nextState = PM_SRAM_STATE_OFF) \<or>
        (?cur = PM_SRAM_STATE_RET \<and> nextState = PM_SRAM_STATE_OFF)"
  proof -
    from d have "(?cur = PM_SRAM_STATE_ON \<and> nextState = PM_SRAM_STATE_RET \<and> ?v = ?m) \<or>
        (?cur = PM_SRAM_STATE_ON \<and> nextState = PM_SRAM_STATE_OFF \<and> ?v = NOT ?m) \<or>
        (?cur = PM_SRAM_STATE_RET \<and> nextState = PM_SRAM_STATE_OFF \<and> ?v = NOT ?m)"
      by (auto simp: state_ids_distinct)
    from handler_power_down [OF this refl, of w]
    have run: "fst ?r = fst (PwrDn sram ?h1)"
      "snd (snd ?r) = \<lparr>regs = snd (PwrDn sram ?h1),
                        calls = calls w @ [RMW32 ?a ?m ?v, PwrDnCall]\<rparr>"
      by simp_all
    have "?h1 ?a AND ?m = (if nextState = PM_SRAM_STATE_RET then ?m else 0)"
      by (simp add: XPfw_RMW32_masked)
    with run show ?thesis by simp
  qed
  have up: "calls (snd (snd ?r)) = calls w @ [PwrUpCall] \<and>
          fst ?r = fst (PwrUp sram (regs w)) \<and>
          regs (snd (snd ?r)) = snd (PwrUp sram (regs w))"
    if u: "(?cur = PM_SRAM_STATE_OFF \<or> ?cur = PM_SRAM_STATE_RET) \<and> nextState = PM_SRAM_STATE_ON"
  proof -
    from u have "?cur = PM_SRAM_STATE_OFF \<or> ?cur = PM_SRAM_STATE_RET"
      and "nextState = PM_SRAM_STATE_ON" by simp_all
    from handler_power_up [OF this, of w] show ?thesis by simp
  qed
  from down up show ?thesis unfolding Let_def by blast
qed


theorem retention_write_then_power_down_witness:
  "calls (snd (snd (PmSramFsmHandler (ex_bank PM_SRAM_STATE_ON pwr_ok) PM_SRAM_STATE_RET
     ex_world))) = [RMW32 0xA0 0x4 0x4, PwrDnCall] \<and>
   regs (snd (snd (PmSramFsmHandler (ex_bank PM_SRAM_STATE_ON pwr_ok) PM_SRAM_STATE_RET
     ex_world))) 0xA0 = 0x4 \<and>
   calls (snd (snd (PmSramFsmHandler (ex_bank PM_SRAM_STATE_RET pwr_ok) PM_SRAM_STATE_OFF
     ex_world))) = [RMW32 0xA0 0x4 (NOT 0x4), PwrDnCall] \<and>
   calls (snd (snd (PmSramFsmHandler (ex_bank PM_SRAM_STATE_OFF pwr_ok) PM_SRAM_STATE_ON
     ex_world))) = [PwrUpCall] \<and>
   calls (snd (snd (PmSramFsmHandler (ex_bank PM_SRAM_STATE_ON pwr_ok) PM_SRAM_STATE_OFF
     ex_world))) = [RMW32 0xA0 0x4 (NOT 0x4), PwrDnCall] \<and>
   calls (snd (snd (PmSramFsmHandler (ex_bank PM_SRAM_STATE_RET pwr_ok) PM_SRAM_STATE_ON
     ex_world))) = [PwrUpCall]"
proof -
  have "calls (snd (snd (PmSramFsmHandler (ex_bank PM_SRAM_STATE_ON pwr_ok)
          PM_SRAM_STATE_RET ex_world))) = [RMW32 0xA0 0x4 0x4, PwrDnCall] \<and>
        regs (snd (snd (PmSramFsmHandler (ex_bank PM_SRAM_STATE_ON pwr_ok)
          PM_SRAM_STATE_RET ex_world))) 0xA0 = 0x4"
    using retention_write_then_power_down
            [of "ex_bank PM_SRAM_STATE_ON pwr_ok" PM_SRAM_STATE_RET ex_world]
    by (simp add: Let_def ex_bank_simps ex_world_simps pwr_ok_def XPfw_RMW32_def)
  moreover
  have "calls (snd (snd (PmSramFsmHandler (ex_bank PM_SRAM_STATE_RET pwr_ok)
          PM_SRAM_STATE_OFF ex_world))) = [RMW32 0xA0 0x4 (NOT 0x4), PwrDnCall]"
    using retention_write_then_power_down
            [of "ex_bank PM_SRAM_STATE_RET pwr_ok" PM_SRAM_STATE_OFF ex_world]
    by (simp add: Let_def ex_bank_simps ex_world_simps state_ids_distinct)
  moreover
  have "calls (snd (snd (PmSramFsmHandler (ex_bank PM_SRAM_STATE_OFF pwr_ok)
          PM_SRAM_STATE_ON ex_world))) = [PwrUpCall]"
    using retention_write_then_power_down
            [of "ex_bank PM_SRAM_STATE_OFF pwr_ok" PM_SRAM_STATE_ON ex_world]
    by (simp add: Let_def ex_bank_simps ex_world_simps state_ids_distinct)
  moreover
  have "calls (snd (snd (PmSramFsmHandler (ex_bank PM_SRAM_STATE_ON pwr_ok)
          PM_SRAM_STATE_OFF ex_world))) = [RMW32 0xA0 0x4 (NOT 0x4), PwrDnCall]"
    using retention_write_then_power_down
            [of "ex_bank PM_SRAM_STATE_ON pwr_ok" PM_SRAM_STATE_OFF ex_world]
    by (simp add: Let_def ex_bank_simps ex_world_simps state_ids_distinct)
  moreover
  have "calls (snd (snd (PmSramFsmHandler (ex_bank PM_SRAM_STATE_RET pwr_ok)
          PM_SRAM_STATE_ON ex_world))) = [PwrUpCall]"
    using retention_write_then_power_down
            [of "ex_bank PM_SRAM_STATE_RET pwr_ok" PM_SRAM_STATE_ON ex_world]
    by (simp add: Let_def ex_bank_simps ex_world_simps state_ids_distinct)
  ultimately show ?thesis by simp
qed

text \<open>
  C9. On a downward transition whose power-down handler returns a status other than
  success, the handler returns that status and the bank as it was, and the registers it
  returns are those the power-down handler left after running on the registers already
  modified by the retention-control write: the two calls are the write and the
  power-down, and none follows that would undo the write. Where the power-down handler
  itself leaves the retention-control register alone, the masked bits of that register
  hold the value of the requested state (set for RETENTION, clear for OFF) although the
  recorded state has not changed.
\<close>

theorem failed_power_down_keeps_retention_write:
  "(let a = retCtrlAddr sram; m = retCtrlMask sram;
        cur = currState (node (slv sram));
        r = PmSramFsmHandler sram nextState w;
        v = (if nextState = PM_SRAM_STATE_RET then m else NOT m);
        h1 = XPfw_RMW32 a m v (regs w)
    in ((cur = PM_SRAM_STATE_ON \<and> nextState = PM_SRAM_STATE_RET) \<or>
        (cur = PM_SRAM_STATE_ON \<and> nextState = PM_SRAM_STATE_OFF) \<or>
        (cur = PM_SRAM_STATE_RET \<and> nextState = PM_SRAM_STATE_OFF)) \<and>
       fst (PwrDn sram h1) \<noteq> XST_SUCCESS \<longrightarrow>
         fst r = fst (PwrDn sram h1) \<and>
         fst (snd r) = sram \<and>
         regs (snd (snd r)) = snd (PwrDn sram h1) \<and>
         calls (snd (snd r)) = calls w @ [RMW32 a m v, PwrDnCall] \<and>
         (snd (PwrDn sram h1) a = h1 a \<longrightarrow>
            regs (snd (snd r)) a AND m = (if nextState = PM_SRAM_STATE_RET then m else 0)))"
proof -
  let ?a = "retCtrlAddr sram" and ?m = "retCtrlMask sram"
  let ?cur = "currState (node (slv sram))"
  let ?r = "PmSramFsmHandler sram nextState w"
  let ?v = "if nextState = PM_SRAM_STATE_RET then ?m else NOT ?m"
  let ?h1 = "XPfw_RMW32 ?a ?m ?v (regs w)"
  have "fst ?r = fst (PwrDn sram ?h1) \<and>
         fst (snd ?r) = sram \<and>
         regs (snd (snd ?r)) = snd (PwrDn sram ?h1) \<and>
         calls (snd (snd ?r)) = calls w @ [RMW32 ?a ?m ?v, PwrDnCall] \<and>
         (snd (PwrDn sram ?h1) ?a = ?h1 ?a \<longrightarrow>
            regs (snd (snd ?r)) ?a AND ?m = (if nextState = PM_SRAM_STATE_RET then ?m else 0))"
    if d: "(?cur = PM_SRAM_STATE_ON \<and> nextState = PM_SRAM_STATE_RET) \<or>
        (?cur = PM_SRAM_STATE_ON \<and> nextState = PM_SRAM_STATE_OFF) \<or>
        (?cur = PM_SRAM_STATE_RET \<and> nextState = PM_SRAM_STATE_OFF)"
      and f: "fst (PwrDn sram ?h1) \<noteq> XST_SUCCESS"
  proof -
    from d have "(?cur = PM_SRAM_STATE_ON \<and> nextState = PM_SRAM_STATE_RET \<and> ?v = ?m) \<or>
        (?cur = PM_SRAM_STATE_ON \<and> nextState = PM_SRAM_STATE_OFF \<and> ?v = NOT ?m) \<or>
        (?cur = PM_SRAM_STATE_RET \<and> nextState = PM_SRAM_STATE_OFF \<and> ?v = NOT ?m)"
      by (auto simp: state_ids_distinct)
    from handler_power_down [OF this refl, of w] f
    have run: "?r = (fst (PwrDn sram ?h1), sram,
                 \<lparr>regs = snd (PwrDn sram ?h1),
                  calls = calls w @ [RMW32 ?a ?m ?v, PwrDnCall]\<rparr>)"
      by (simp add: eq_commute [of XST_SUCCESS])
    have bits: "?h1 ?a AND ?m = (if nextState = PM_SRAM_STATE_RET then ?m else 0)"
      by (simp add: XPfw_RMW32_masked)
    show ?thesis
      unfolding run using bits by simp
  qed
  then show ?thesis unfolding Let_def by blast
qed

theorem failed_power_down_keeps_retention_write_witness:
  "currState (node (slv (ex_bank PM_SRAM_STATE_ON pwr_fail))) = PM_SRAM_STATE_ON \<and>
   fst (pwr_fail (XPfw_RMW32 0xA0 0x4 0x4 (regs ex_world))) \<noteq> XST_SUCCESS \<and>
   snd (pwr_fail (XPfw_RMW32 0xA0 0x4 0x4 (regs ex_world))) 0xA0 =
     XPfw_RMW32 0xA0 0x4 0x4 (regs ex_world) 0xA0 \<and>
   regs ex_world 0xA0 = 0 \<and>
   fst (PmSramFsmHandler (ex_bank PM_SRAM_STATE_ON pwr_fail) PM_SRAM_STATE_RET ex_world) = 1 \<and>
   currState (node (slv (fst (snd (PmSramFsmHandler (ex_bank PM_SRAM_STATE_ON pwr_fail)
     PM_SRAM_STATE_RET ex_world))))) = PM_SRAM_STATE_ON \<and>
   regs (snd (snd (PmSramFsmHandler (ex_bank PM_SRAM_STATE_ON pwr_fail) PM_SRAM_STATE_RET
     ex_world))) 0xA0 = 0x4"
proof -
  have f: "fst (pwr_fail (XPfw_RMW32 0xA0 0x4 0x4 (regs ex_world))) \<noteq> XST_SUCCESS"
    by (simp add: pwr_fail_def XST_SUCCESS_def)
  from failed_power_down_keeps_retention_write
         [of "ex_bank PM_SRAM_STATE_ON pwr_fail" PM_SRAM_STATE_RET ex_world] f
  show ?thesis
    by (simp add: Let_def ex_bank_simps ex_world_simps pwr_fail_def XPfw_RMW32_def)
qed

section \<open>The L2 power-down wrapper\<close>

text \<open>
  C10. The power-down action bound to the L2 bank is \<open>PmL2PwrDn\<close>. For every PMU-ROM
  handler and every register state it returns the status of the PMU-ROM handler as it
  is, and the registers it returns are those the PMU-ROM handler left with the
  read-modify-write of the APU reset register applied afterwards, whatever the status
  was; so in the result all bits of the L2 reset mask are set in that register.
\<close>

theorem l2_power_down_asserts_reset:
  "PwrDn (pmSlaveL2_g p) = PmL2PwrDn p \<and>
   fst (PmL2PwrDn p h) = fst (XpbrPwrDnL2Bank0Handler p h) \<and>
   snd (PmL2PwrDn p h) =
     XPfw_RMW32 (CRF_APB_RST_FPD_APU p) (CRF_APB_RST_FPD_APU_APU_L2_RESET_MASK p)
       (CRF_APB_RST_FPD_APU_APU_L2_RESET_MASK p) (snd (XpbrPwrDnL2Bank0Handler p h)) \<and>
   snd (PmL2PwrDn p h) (CRF_APB_RST_FPD_APU p) AND CRF_APB_RST_FPD_APU_APU_L2_RESET_MASK p =
     CRF_APB_RST_FPD_APU_APU_L2_RESET_MASK p"
  by (simp add: pmSlaveL2_g_def PmL2PwrDn_def split_beta XPfw_RMW32_set)

text \<open>
  An L2 bank whose PMU-ROM power-down handler fails: the request ON to OFF returns the
  failure, the bank stays ON, and the L2 reset bit is set all the same.
\<close>

lemma l2_failed_power_down_example:
  "(let p = \<lparr>XpbrPwrDnL2Bank0Handler = pwr_fail, XpbrPwrUpL2Bank0Handler = pwr_ok,
             CRF_APB_RST_FPD_APU = 0x104,
             CRF_APB_RST_FPD_APU_APU_L2_RESET_MASK = 0x100,
             PMU_GLOBAL_RAM_RET_CNTRL = 0xA0,
             PMU_GLOBAL_RAM_RET_CNTRL_L2_BANK0_MASK = 0x1\<rparr>;
        r = PmSramFsmHandler (pmSlaveL2_g p) PM_SRAM_STATE_OFF ex_world
    in fst r = 1 \<and> currState (node (slv (fst (snd r)))) = PM_SRAM_STATE_ON \<and>
       regs (snd (snd r)) 0x104 = 0x100)"
  by (simp add: Let_def handler_power_down [where v = "NOT 0x1"] pmSlaveL2_g_def
      PmL2PwrDn_def pwr_fail_def XPfw_RMW32_def ex_world_simps XST_SUCCESS_def)


section \<open>The capability tables\<close>

lemma cap_subset_zero: "cap_subset 0 b"
  by (simp add: cap_subset_def)

lemma cap_subset_refl: "cap_subset a a"
  by (simp add: cap_subset_def)

lemma cap_subset_or_left: "cap_subset a c \<Longrightarrow> cap_subset a (b OR c)"
  by (simp add: cap_subset_def bit_eq_iff bit_simps) blast

lemma cap_subset_or_right: "cap_subset a b \<Longrightarrow> cap_subset a (b OR c)"
  by (simp add: cap_subset_def bit_eq_iff bit_simps) blast

lemma cap_subset_trans: "cap_subset a b \<Longrightarrow> cap_subset b c \<Longrightarrow> cap_subset a c"
  by (simp add: cap_subset_def bit_eq_iff bit_simps) blast

lemma state_table_entries:
  "pmSramStates ! PM_SRAM_STATE_OFF = 0"
  "pmSramStates ! PM_SRAM_STATE_RET = PM_CAP_CONTEXT OR PM_CAP_POWER"
  "pmSramStates ! PM_SRAM_STATE_ON = PM_CAP_ACCESS OR PM_CAP_CONTEXT OR PM_CAP_POWER"
  "pmTcmStates ! PM_SRAM_STATE_OFF = 0"
  "pmTcmStates ! PM_SRAM_STATE_RET = PM_CAP_CONTEXT"
  "pmTcmStates ! PM_SRAM_STATE_ON = PM_CAP_ACCESS OR PM_CAP_CONTEXT OR PM_CAP_POWER"
  by (simp_all add: pmSramStates_def pmTcmStates_def PM_SRAM_STATE_OFF_def
      PM_SRAM_STATE_RET_def PM_SRAM_STATE_ON_def)

lemma state_table_chain:
  assumes "tbl = pmSramStates \<or> tbl = pmTcmStates"
  shows "cap_subset (tbl ! PM_SRAM_STATE_OFF) (tbl ! PM_SRAM_STATE_RET)"
    and "cap_subset (tbl ! PM_SRAM_STATE_RET) (tbl ! PM_SRAM_STATE_ON)"
    and "cap_subset (tbl ! PM_SRAM_STATE_OFF) (tbl ! PM_SRAM_STATE_ON)"
proof -
  have sram: "cap_subset (PM_CAP_CONTEXT OR PM_CAP_POWER)
                (PM_CAP_ACCESS OR PM_CAP_CONTEXT OR PM_CAP_POWER)"
    by (rule cap_subset_or_left) (rule cap_subset_refl)
  have tcm: "cap_subset PM_CAP_CONTEXT (PM_CAP_ACCESS OR PM_CAP_CONTEXT OR PM_CAP_POWER)"
    by (rule cap_subset_or_left, rule cap_subset_or_right) (rule cap_subset_refl)
  from assms sram tcm
  show "cap_subset (tbl ! PM_SRAM_STATE_OFF) (tbl ! PM_SRAM_STATE_RET)"
    and "cap_subset (tbl ! PM_SRAM_STATE_RET) (tbl ! PM_SRAM_STATE_ON)"
    and "cap_subset (tbl ! PM_SRAM_STATE_OFF) (tbl ! PM_SRAM_STATE_ON)"
    by (auto simp: state_table_entries cap_subset_zero)
qed

lemma state_order: "PM_SRAM_STATE_OFF < PM_SRAM_STATE_RET" "PM_SRAM_STATE_RET < PM_SRAM_STATE_ON"
  "PM_SRAM_STATE_OFF < PM_SRAM_STATE_ON"
  by (simp_all add: PM_SRAM_STATE_OFF_def PM_SRAM_STATE_RET_def PM_SRAM_STATE_ON_def)

text \<open>
  C6. In the SRAM state table and in the TCM state table the capability bit-set of OFF is
  contained in that of RETENTION, and that of RETENTION in that of ON. Hence for every
  edge of the transition table, with either state table: when the edge goes upward in
  the order OFF, RETENTION, ON the capabilities of its source are contained in those of
  its target, and when it goes downward those of its target are contained in those of
  its source.
\<close>

theorem capabilities_monotone:
  "\<forall>tbl \<in> {pmSramStates, pmTcmStates}.
      cap_subset (tbl ! PM_SRAM_STATE_OFF) (tbl ! PM_SRAM_STATE_RET) \<and>
      cap_subset (tbl ! PM_SRAM_STATE_RET) (tbl ! PM_SRAM_STATE_ON) \<and>
      (\<forall>e \<in> set (pmSramTransitions lat).
         (fromState e < toState e \<longrightarrow>
            cap_subset (tbl ! fromState e) (tbl ! toState e)) \<and>
         (toState e < fromState e \<longrightarrow>
            cap_subset (tbl ! toState e) (tbl ! fromState e)))"
proof
  fix tbl assume "tbl \<in> {pmSramStates, pmTcmStates}"
  then have t: "tbl = pmSramStates \<or> tbl = pmTcmStates" by simp
  note chain = state_table_chain [OF t]
  have "(fromState e < toState e \<longrightarrow> cap_subset (tbl ! fromState e) (tbl ! toState e)) \<and>
        (toState e < fromState e \<longrightarrow> cap_subset (tbl ! toState e) (tbl ! fromState e))"
    if "e \<in> set (pmSramTransitions lat)" for e
  proof -
    from that consider
        "fromState e = PM_SRAM_STATE_ON" "toState e = PM_SRAM_STATE_RET"
      | "fromState e = PM_SRAM_STATE_RET" "toState e = PM_SRAM_STATE_ON"
      | "fromState e = PM_SRAM_STATE_ON" "toState e = PM_SRAM_STATE_OFF"
      | "fromState e = PM_SRAM_STATE_OFF" "toState e = PM_SRAM_STATE_ON"
      by (auto simp: pmSramTransitions_def)
    then show ?thesis
      using chain state_order by cases (simp_all add: not_less_iff_gr_or_eq)
  qed
  with chain
  show "cap_subset (tbl ! PM_SRAM_STATE_OFF) (tbl ! PM_SRAM_STATE_RET) \<and>
      cap_subset (tbl ! PM_SRAM_STATE_RET) (tbl ! PM_SRAM_STATE_ON) \<and>
      (\<forall>e \<in> set (pmSramTransitions lat).
         (fromState e < toState e \<longrightarrow>
            cap_subset (tbl ! fromState e) (tbl ! toState e)) \<and>
         (toState e < fromState e \<longrightarrow>
            cap_subset (tbl ! toState e) (tbl ! fromState e)))"
    by blast
qed

theorem capabilities_monotone_witness:
  "pmTcmStates \<in> {pmSramStates, pmTcmStates} \<and>
   \<lparr>fromState = PM_SRAM_STATE_ON, toState = PM_SRAM_STATE_RET, latency = 0\<rparr>
      \<in> set (pmSramTransitions 0) \<and>
   PM_SRAM_STATE_RET < PM_SRAM_STATE_ON \<and>
   cap_subset (pmTcmStates ! PM_SRAM_STATE_RET) (pmTcmStates ! PM_SRAM_STATE_ON) \<and>
   \<lparr>fromState = PM_SRAM_STATE_OFF, toState = PM_SRAM_STATE_ON, latency = 0\<rparr>
      \<in> set (pmSramTransitions 0) \<and>
   PM_SRAM_STATE_OFF < PM_SRAM_STATE_ON \<and>
   cap_subset (pmTcmStates ! PM_SRAM_STATE_OFF) (pmTcmStates ! PM_SRAM_STATE_ON)"
proof -
  have tbl: "pmTcmStates \<in> {pmSramStates, pmTcmStates}" by simp
  have down: "\<lparr>fromState = PM_SRAM_STATE_ON, toState = PM_SRAM_STATE_RET, latency = 0\<rparr>
      \<in> set (pmSramTransitions 0)"
    and up: "\<lparr>fromState = PM_SRAM_STATE_OFF, toState = PM_SRAM_STATE_ON, latency = 0\<rparr>
      \<in> set (pmSramTransitions 0)"
    by (simp_all add: pmSramTransitions_def)
  note edges = capabilities_monotone [of 0, THEN bspec, OF tbl, THEN conjunct2, THEN conjunct2]
  from edges [THEN bspec, OF down] state_order
  have d: "cap_subset (pmTcmStates ! PM_SRAM_STATE_RET) (pmTcmStates ! PM_SRAM_STATE_ON)"
    by simp
  from edges [THEN bspec, OF up] state_order
  have u: "cap_subset (pmTcmStates ! PM_SRAM_STATE_OFF) (pmTcmStates ! PM_SRAM_STATE_ON)"
    by simp
  from tbl down up d u state_order show ?thesis by simp
qed

text \<open>
  C7. The RETENTION entry of the TCM table is the context capability alone: it has
  neither the power bit nor the access bit. The RETENTION entry of the SRAM table is
  context together with power, and contains both. The OFF entries of the two tables are
  equal, and so are the ON entries. The SRAM and the TCM FSM descriptors hold the same
  transition table, \<open>pmSramTransitions\<close>, with the same count, the same number of
  states, and the same handler, \<open>PmSramFsmHandler\<close>.
\<close>

theorem tcm_retention_without_power:
  "pmTcmStates ! PM_SRAM_STATE_RET = PM_CAP_CONTEXT \<and>
   (pmTcmStates ! PM_SRAM_STATE_RET) AND PM_CAP_POWER = 0 \<and>
   (pmTcmStates ! PM_SRAM_STATE_RET) AND PM_CAP_ACCESS = 0 \<and>
   PM_CAP_POWER \<noteq> 0 \<and> PM_CAP_CONTEXT \<noteq> 0 \<and>
   pmSramStates ! PM_SRAM_STATE_RET = PM_CAP_CONTEXT OR PM_CAP_POWER \<and>
   cap_subset PM_CAP_CONTEXT (pmSramStates ! PM_SRAM_STATE_RET) \<and>
   cap_subset PM_CAP_POWER (pmSramStates ! PM_SRAM_STATE_RET) \<and>
   pmSramStates ! PM_SRAM_STATE_OFF = pmTcmStates ! PM_SRAM_STATE_OFF \<and>
   pmSramStates ! PM_SRAM_STATE_ON = pmTcmStates ! PM_SRAM_STATE_ON \<and>
   states (slaveSramFsm lat) = pmSramStates \<and>
   states (slaveTcmFsm lat) = pmTcmStates \<and>
   trans (slaveSramFsm lat) = pmSramTransitions lat \<and>
   trans (slaveTcmFsm lat) = trans (slaveSramFsm lat) \<and>
   transCnt (slaveTcmFsm lat) = transCnt (slaveSramFsm lat) \<and>
   statesCnt (slaveTcmFsm lat) = statesCnt (slaveSramFsm lat) \<and>
   enterState (slaveSramFsm lat) = PmSramFsmHandler \<and>
   enterState (slaveTcmFsm lat) = enterState (slaveSramFsm lat)"
proof -
  have bits: "PM_CAP_CONTEXT AND PM_CAP_POWER = 0" "PM_CAP_CONTEXT AND PM_CAP_ACCESS = 0"
    "PM_CAP_POWER \<noteq> 0" "PM_CAP_CONTEXT \<noteq> 0"
    by (simp_all add: PM_CAP_CONTEXT_def PM_CAP_POWER_def PM_CAP_ACCESS_def)
  have incl: "cap_subset PM_CAP_CONTEXT (PM_CAP_CONTEXT OR PM_CAP_POWER)"
    "cap_subset PM_CAP_POWER (PM_CAP_CONTEXT OR PM_CAP_POWER)"
    by (simp_all add: cap_subset_or_left cap_subset_or_right cap_subset_refl)
  show ?thesis
    by (simp add: state_table_entries bits incl slaveSramFsm_def slaveTcmFsm_def)
qed

end
